theory Spec2Isabelle
  imports Main "HOL-Library.Sublist"
begin

section \<open>JavaScript values used by \<open>generate_devtools_ui_strings.js\<close>\<close>

text \<open>
  The script handles values that are either a string or \<open>undefined\<close>: an element read
  from \<open>process.argv\<close> at an index that may lie outside the array, and the report a
  \<open>getAndReport...\<close> collaborator returns. Such a value is a \<open>string option\<close>, with
  \<open>None\<close> for \<open>undefined\<close>.
\<close>

type_synonym js_string = "string option"

text \<open>The truthiness test of \<open>v ? a : b\<close> and \<open>if (v)\<close>: \<open>undefined\<close> and the empty
  string are falsy, every other string is truthy.\<close>

definition truthy :: "js_string \<Rightarrow> bool" where
  "truthy v = (case v of None \<Rightarrow> False | Some s \<Rightarrow> s \<noteq> [])"

text \<open>What a template literal \<open>`${v}`\<close> inserts for \<open>v\<close>.\<close>

definition js_to_string :: "js_string \<Rightarrow> string" where
  "js_to_string v = (case v of None \<Rightarrow> ''undefined'' | Some s \<Rightarrow> s)"

text \<open>A thrown or rejected value: an \<open>Error\<close> object with its message and its stack.\<close>

datatype js_error = JsError (message: string) (stack: string)

text \<open>\<open>Array.prototype.indexOf\<close>: the first index holding the searched element,
  counted from 0, and \<open>-1\<close> when no element is equal to it.\<close>

fun indexOfFrom :: "'a list \<Rightarrow> 'a \<Rightarrow> int \<Rightarrow> int" where
  "indexOfFrom [] x k = - 1"
| "indexOfFrom (y # ys) x k = (if y = x then k else indexOfFrom ys x (k + 1))"

definition indexOf :: "'a list \<Rightarrow> 'a \<Rightarrow> int" where
  "indexOf xs x = indexOfFrom xs x 0"

text \<open>The element access \<open>xs[i]\<close>: \<open>undefined\<close> outside the array, never an error.\<close>

definition element :: "'a list \<Rightarrow> int \<Rightarrow> 'a option" where
  "element xs i = (if 0 \<le> i \<and> i < int (length xs) then Some (xs ! nat i) else None)"

section \<open>Command line\<close>

record Arguments =
  rootGenDir :: js_string
  outputHeaderFilePath :: js_string
  outputCCFilePath :: js_string

definition parseArguments :: "string list \<Rightarrow> Arguments" where
  "parseArguments args =
     (let rootGenDirIndex = indexOf args ''--root_gen_dir'';
          outputHeaderIndex = indexOf args ''--output_header'';
          outputCCIndex = indexOf args ''--output_cc''
      in \<lparr>rootGenDir = element args (rootGenDirIndex + 1),
          outputHeaderFilePath = element args (outputHeaderIndex + 1),
          outputCCFilePath = element args (outputCCIndex + 1)\<rparr>)"

section \<open>The collaborators and the effects of a run\<close>

text \<open>
  \<open>frontendStrings\<close> is a JavaScript \<open>Map\<close> from IDS key to an object whose \<open>string\<close>
  field holds the text. A \<open>Map\<close> iterates in insertion order, so it is the list of its
  entries in that order; \<open>size\<close> is the number of entries.
\<close>

record frontendString =
  string :: string

type_synonym frontendStrings = "(string \<times> frontendString) list"

text \<open>
  Everything the script takes from outside itself: \<open>process.argv\<close>, the outcome of awaiting
  \<open>checkLocalizedStrings.parseLocalizableResourceMaps()\<close> (\<open>Inl\<close> when it throws or
  rejects), what the three \<open>getAndReport...\<close> functions return,
  \<open>localizationUtils.sanitizeStringIntoCppFormat\<close>, Node's \<open>path.join\<close> on strings with
  the \<open>TypeError\<close> it throws for an argument that is not a string, and for every path and
  content whether the promisified \<open>fs.writeFile\<close> rejects (\<open>Some\<close> error) or resolves.
  When both writes reject, \<open>Promise.all\<close> rejects with the one that rejected first;
  \<open>headerRejectsFirst\<close> says which.
\<close>

record env =
  argv :: "string list"
  parseLocalizableResourceMaps :: "js_error + frontendStrings"
  getAndReportResourcesToAdd :: js_string
  getAndReportIDSKeysToModify :: js_string
  getAndReportResourcesToRemove :: js_string
  sanitizeStringIntoCppFormat :: "string \<Rightarrow> string"
  path_join :: "string \<Rightarrow> string \<Rightarrow> string"
  path_join_TypeError :: js_error
  writeFileAsync :: "string \<Rightarrow> string \<Rightarrow> js_error option"
  headerRejectsFirst :: bool

text \<open>The effects of a run, in the order they happen: calls of the collaborators, calls
  of \<open>console.log\<close>, the call of the generation step and the file writes it issues.\<close>

datatype event =
    Call_parseLocalizableResourceMaps
  | Call_getAndReportResourcesToAdd
  | Call_getAndReportIDSKeysToModify
  | Call_getAndReportResourcesToRemove
  | Console_log string
  | Console_log_error js_error
  | Call_generateDevToolsLocalizedStrings
  | Call_writeFileAsync string string

text \<open>A finished run: its effects and the exit status of the process (\<open>process.exit(1)\<close>
  gives 1, returning from \<open>main\<close> gives 0).\<close>

record run =
  events :: "event list"
  exitCode :: nat

section \<open>Generation\<close>

text \<open>How a template literal prints \<open>frontendStrings.size\<close>, a non-negative integer: in
  decimal, without leading zeros.\<close>

definition digit_char :: "nat \<Rightarrow> char" where
  "digit_char d = char_of (48 + d)"

function number_toString :: "nat \<Rightarrow> string" where
  "number_toString n =
     (if n < 10 then [digit_char n] else number_toString (n div 10) @ [digit_char (n mod 10)])"
  by pat_completeness auto
termination
  by (relation "measure id") auto

declare number_toString.simps [simp del]

text \<open>\<open>path.join\<close> on values that may be \<open>undefined\<close>: it throws when an argument is not a
  string.\<close>

definition path_join_js :: "env \<Rightarrow> js_string \<Rightarrow> js_string \<Rightarrow> js_error + string" where
  "path_join_js e a b =
     (case a of
        None \<Rightarrow> Inl (path_join_TypeError e)
      | Some x \<Rightarrow>
          (case b of
             None \<Rightarrow> Inl (path_join_TypeError e)
           | Some y \<Rightarrow> Inr (path_join e x y)))"

definition doNotEditStr :: string where
  "doNotEditStr = ''// This file is automatically generated by //third_party/devtools-frontend/src/scripts/build/generate_devtools_ui_strings.js. Do not edit.''"

definition outputHeaderFileContent :: "frontendStrings \<Rightarrow> string" where
  \<open>outputHeaderFileContent frontendStrings =
     doNotEditStr @ ''\<newline>''
     @ ''\<newline>''
     @ ''#ifndef CHROME_BROWSER_UI_WEBUI_DEVTOOLS_UI_STRINGS_H_\<newline>''
     @ ''#define CHROME_BROWSER_UI_WEBUI_DEVTOOLS_UI_STRINGS_H_\<newline>''
     @ ''\<newline>''
     @ ''#include "chrome/browser/ui/webui/localized_string.h"\<newline>''
     @ ''\<newline>''
     @ ''namespace devtools {\<newline>''
     @ ''\<newline>''
     @ ''constexpr unsigned int kLocalizedStringsSize = ''
         @ number_toString (length frontendStrings) @ '';\<newline>''
     @ ''extern const LocalizedString kLocalizedStrings[kLocalizedStringsSize];\<newline>''
     @ ''\<newline>''
     @ ''} // namespace devtools\<newline>''
     @ ''\<newline>''
     @ ''#endif // CHROME_BROWSER_UI_WEBUI_DEVTOOLS_UI_STRINGS_H_\<newline>''\<close>

text \<open>The \<open>forEach\<close> loop over \<open>frontendStrings\<close>, appending one line to \<open>mappingsStr\<close>
  for each entry.\<close>

fun forEach_mappingsStr :: "(string \<Rightarrow> string) \<Rightarrow> frontendStrings \<Rightarrow> string \<Rightarrow> string" where
  \<open>forEach_mappingsStr sanitizeInto [] mappingsStr = mappingsStr\<close>
| \<open>forEach_mappingsStr sanitizeInto ((idsKey, frontendString) # rest) mappingsStr =
     forEach_mappingsStr sanitizeInto rest
       (mappingsStr @ ''  {"'' @ sanitizeInto (string frontendString) @ ''", '' @ idsKey
          @ ''},\<newline>'')\<close>

definition outputCCFileContent :: "env \<Rightarrow> Arguments \<Rightarrow> frontendStrings \<Rightarrow> string" where
  \<open>outputCCFileContent e args frontendStrings =
     (let mappingsStr = forEach_mappingsStr (sanitizeStringIntoCppFormat e) frontendStrings []
      in doNotEditStr @ ''\<newline>''
         @ ''\<newline>''
         @ ''#include "'' @ js_to_string (outputHeaderFilePath args) @ ''"\<newline>''
         @ ''\<newline>''
         @ ''#include "third_party/devtools-frontend/src/front_end/langpacks/devtools_ui_strings.h"\<newline>''
         @ ''\<newline>''
         @ ''namespace devtools {\<newline>''
         @ ''\<newline>''
         @ ''const LocalizedString kLocalizedStrings[] = {\<newline>''
         @ mappingsStr @ ''};\<newline>''
         @ ''\<newline>''
         @ ''} // namespace devtools\<newline>'')\<close>

text \<open>\<open>Promise.all\<close> of the two write promises: it resolves when both resolve and
  rejects with the first rejection otherwise.\<close>

definition Promise_all :: "env \<Rightarrow> js_error option \<Rightarrow> js_error option \<Rightarrow> js_error + unit" where
  "Promise_all e headerWrite ccWrite =
     (case headerWrite of
        None \<Rightarrow> (case ccWrite of None \<Rightarrow> Inr () | Some e2 \<Rightarrow> Inl e2)
      | Some e1 \<Rightarrow>
          (case ccWrite of
             None \<Rightarrow> Inl e1
           | Some e2 \<Rightarrow> Inl (if headerRejectsFirst e then e1 else e2)))"

text \<open>
  \<open>generateDevToolsLocalizedStrings\<close>: the effects it has and the outcome of awaiting the
  promise it returns. An exception thrown in the body of the \<open>async\<close> function (by
  \<open>path.join\<close>) rejects that promise before any write is issued. Both writes are issued
  before either is awaited.
\<close>

definition generateDevToolsLocalizedStrings ::
  "env \<Rightarrow> Arguments \<Rightarrow> frontendStrings \<Rightarrow> event list \<times> (js_error + unit)" where
  "generateDevToolsLocalizedStrings e args frontendStrings =
     (case path_join_js e (rootGenDir args) (outputHeaderFilePath args) of
        Inl err \<Rightarrow> ([], Inl err)
      | Inr outputAbsoluteHeaderFilePath \<Rightarrow>
          (case path_join_js e (rootGenDir args) (outputCCFilePath args) of
             Inl err \<Rightarrow> ([], Inl err)
           | Inr outputAbsoluteCCFilePath \<Rightarrow>
               (let headerContent = outputHeaderFileContent frontendStrings;
                    headerWrite = writeFileAsync e outputAbsoluteHeaderFilePath headerContent;
                    ccContent = outputCCFileContent e args frontendStrings;
                    ccWrite = writeFileAsync e outputAbsoluteCCFilePath ccContent
                in ([Call_writeFileAsync outputAbsoluteHeaderFilePath headerContent,
                     Call_writeFileAsync outputAbsoluteCCFilePath ccContent],
                    Promise_all e headerWrite ccWrite))))"

section \<open>The run\<close>

text \<open>
  \<open>main\<close>, with one branch for each way the source leaves it: \<open>process.exit(1)\<close> in the
  handler of the parse step (line 47), \<open>process.exit(1)\<close> at the gate (line 64),
  \<open>process.exit(1)\<close> in the handler of the generation step (line 71), and the return after
  a generation that resolved. The destructuring assignment of line 44 writes the
  undeclared \<open>_\<close>, which a CommonJS module outside strict mode allows. The three
  \<open>getAndReport...\<close> calls stand outside every \<open>try\<close>; they are taken to return their
  report.
\<close>

definition autofix_pointer :: string where
  "autofix_pointer = ''\<newline>The errors are potentially fixable with `node third_party/devtools-frontend/src/scripts/check_localizable_resources.js --autofix`''"

text \<open>The value of \<open>error\<close> after the template literal of lines 53 and 54.\<close>

definition error_of_reports :: "js_string \<Rightarrow> js_string \<Rightarrow> js_string \<Rightarrow> string" where
  "error_of_reports toAddError toModifyError toRemoveError =
     (if truthy toAddError then js_to_string toAddError @ ''\<newline>'' else [])
     @ (if truthy toModifyError then js_to_string toModifyError @ ''\<newline>'' else [])
     @ (if truthy toRemoveError then js_to_string toRemoveError @ ''\<newline>'' else [])"

definition main :: "env \<Rightarrow> run" where
  "main e =
     (let args = parseArguments (argv e) in
      case parseLocalizableResourceMaps e of
        Inl err \<Rightarrow>
          \<lparr>events = [Call_parseLocalizableResourceMaps, Console_log_error err], exitCode = 1\<rparr>
      | Inr frontendStrings \<Rightarrow>
          (let toAddError = getAndReportResourcesToAdd e;
               toModifyError = getAndReportIDSKeysToModify e;
               toRemoveError = getAndReportResourcesToRemove e;
               error = error_of_reports toAddError toModifyError toRemoveError;
               gate = [Call_parseLocalizableResourceMaps, Call_getAndReportResourcesToAdd,
                       Call_getAndReportIDSKeysToModify, Call_getAndReportResourcesToRemove]
                      @ (if error \<noteq> [] then [Console_log (error @ autofix_pointer)] else [])
           in if truthy toAddError \<or> truthy toModifyError
              then \<lparr>events = gate, exitCode = 1\<rparr>
              else
                (case generateDevToolsLocalizedStrings e args frontendStrings of
                   (writes, Inl err) \<Rightarrow>
                     \<lparr>events = gate @ [Call_generateDevToolsLocalizedStrings] @ writes
                         @ [Console_log ''Error generating id map files:'',
                            Console_log (stack err)],
                      exitCode = 1\<rparr>
                 | (writes, Inr u) \<Rightarrow>
                     \<lparr>events = gate @ [Call_generateDevToolsLocalizedStrings] @ writes,
                      exitCode = 0\<rparr>)))"

section \<open>Reading the generated size back\<close>

text \<open>
  The value a C++ compiler gives an integer literal without suffix, used to state that
  the constant written into the header is the number of entries. A literal that starts
  with \<open>0\<close> is octal (so \<open>010\<close> is eight, and \<open>0\<close> alone is zero); one that starts with
  another digit is decimal. Anything else (a hexadecimal or binary prefix, a digit
  separator, a suffix, a digit outside the base, the empty text) is not read.
\<close>

definition digit_below :: "nat \<Rightarrow> char \<Rightarrow> nat option" where
  "digit_below base c =
     (let k = (of_char c :: nat) in if 48 \<le> k \<and> k < 48 + base then Some (k - 48) else None)"

fun numeral_value_from :: "nat \<Rightarrow> string \<Rightarrow> nat \<Rightarrow> nat option" where
  "numeral_value_from base [] acc = Some acc"
| "numeral_value_from base (c # cs) acc =
     (case digit_below base c of
        None \<Rightarrow> None
      | Some d \<Rightarrow> numeral_value_from base cs (base * acc + d))"

definition integer_literal_value :: "string \<Rightarrow> nat option" where
  "integer_literal_value s =
     (case s of
        [] \<Rightarrow> None
      | c # cs \<Rightarrow>
          if c = CHR ''0'' then numeral_value_from 8 cs 0 else numeral_value_from 10 s 0)"

section \<open>The sanitizer and the string literals of the generated language\<close>

text \<open>
  Modelled from the spec: \<open>sanitizeStringIntoCppFormat\<close> lives in
  \<open>scripts/localization/utils/localization_utils.js\<close>, which is not among the source
  files; only its call in \<open>generateDevToolsLocalizedStrings\<close> is. The spec's StringSanitizer
  (section 4.1) is a pure function \<open>sanitize\<close> from strings to strings that escapes
  control characters, quotes and backslashes so that the result can stand between double
  quotes. Here a string is a list of bytes; a backslash becomes two backslashes, a double
  quote becomes backslash and double quote, a control character (code below 32, or 127)
  becomes a backslash and its code in three octal digits, and every other byte stands
  for itself. Every byte has such a form, so \<open>sanitize\<close> never fails.
\<close>

definition is_control :: "char \<Rightarrow> bool" where
  "is_control c = ((of_char c :: nat) < 32 \<or> (of_char c :: nat) = 127)"

definition sanitize_char :: "char \<Rightarrow> string" where
  "sanitize_char c =
     (if c = CHR 0x5C then [CHR 0x5C, CHR 0x5C]
      else if c = CHR 0x22 then [CHR 0x5C, CHR 0x22]
      else if is_control c then
        [CHR 0x5C, digit_char (of_char c div 64), digit_char (of_char c div 8 mod 8),
         digit_char (of_char c mod 8)]
      else [c])"

definition sanitize :: "string \<Rightarrow> string" where
  "sanitize text = concat (map sanitize_char text)"

text \<open>
  Modelled from the spec: "the target language's literal rules" are those of a C++
  ordinary string literal. Between the quotes stand characters other than double
  quote, backslash and newline, the simple escape sequences, and octal escape sequences
  of one to three digits (the longest run is taken) whose value fits a byte. The reader
  gives \<open>None\<close> for a text that is not such a literal; hexadecimal escapes and universal
  character names are outside what it reads.
\<close>

definition simple_escape :: "char \<Rightarrow> char option" where
  "simple_escape c =
     (if c = CHR 0x27 then Some (CHR 0x27)
      else if c = CHR 0x22 then Some (CHR 0x22)
      else if c = CHR ''?'' then Some (CHR ''?'')
      else if c = CHR 0x5C then Some (CHR 0x5C)
      else if c = CHR ''a'' then Some (CHR 0x07)
      else if c = CHR ''b'' then Some (CHR 0x08)
      else if c = CHR ''f'' then Some (CHR 0x0C)
      else if c = CHR ''n'' then Some (CHR 0x0A)
      else if c = CHR ''r'' then Some (CHR 0x0D)
      else if c = CHR ''t'' then Some (CHR 0x09)
      else if c = CHR ''v'' then Some (CHR 0x0B)
      else None)"

definition octal_digit :: "char \<Rightarrow> nat option" where
  "octal_digit c =
     (let k = (of_char c :: nat) in if 48 \<le> k \<and> k \<le> 55 then Some (k - 48) else None)"

definition octal_char :: "nat \<Rightarrow> char option" where
  "octal_char v = (if v < 256 then Some (char_of v) else None)"

definition emit :: "char option \<Rightarrow> string option \<Rightarrow> string option" where
  "emit c rest =
     (case c of
        None \<Rightarrow> None
      | Some x \<Rightarrow> (case rest of None \<Rightarrow> None | Some xs \<Rightarrow> Some (x # xs)))"

text \<open>The text after the opening quote, up to the closing quote, which must end it.\<close>

fun read_literal_body :: "string \<Rightarrow> string option" where
  "read_literal_body [] = None"
| "read_literal_body (c # cs) =
     (if c = CHR 0x22 then (if cs = [] then Some [] else None)
      else if c = CHR 0x0A then None
      else if c \<noteq> CHR 0x5C then emit (Some c) (read_literal_body cs)
      else
        (case cs of
           [] \<Rightarrow> None
         | e1 # r1 \<Rightarrow>
             (case octal_digit e1 of
                None \<Rightarrow> emit (simple_escape e1) (read_literal_body r1)
              | Some d1 \<Rightarrow>
                  (case r1 of
                     [] \<Rightarrow> None
                   | e2 # r2 \<Rightarrow>
                       (case octal_digit e2 of
                          None \<Rightarrow> emit (octal_char d1) (read_literal_body r1)
                        | Some d2 \<Rightarrow>
                            (case r2 of
                               [] \<Rightarrow> None
                             | e3 # r3 \<Rightarrow>
                                 (case octal_digit e3 of
                                    None \<Rightarrow>
                                      emit (octal_char (8 * d1 + d2)) (read_literal_body r2)
                                  | Some d3 \<Rightarrow>
                                      emit (octal_char (64 * d1 + 8 * d2 + d3))
                                        (read_literal_body r3))))))))"

definition parse_cpp_string_literal :: "string \<Rightarrow> string option" where
  "parse_cpp_string_literal lit =
     (case lit of
        [] \<Rightarrow> None
      | q # body \<Rightarrow> if q = CHR 0x22 then read_literal_body body else None)"

section \<open>Example environments\<close>

text \<open>A run with all three flags given, two strings found, no diffs, the identity as
  sanitizer, and writes that succeed.\<close>

definition example_env :: env where
  "example_env =
     \<lparr>argv = [''node'', ''gen.js'', ''--root_gen_dir'', ''out'', ''--output_header'', ''a.h'',
              ''--output_cc'', ''a.cc''],
      parseLocalizableResourceMaps =
        Inr [(''IDS_A'', \<lparr>string = ''Hello''\<rparr>), (''IDS_B'', \<lparr>string = ''World''\<rparr>)],
      getAndReportResourcesToAdd = None,
      getAndReportIDSKeysToModify = None,
      getAndReportResourcesToRemove = None,
      sanitizeStringIntoCppFormat = (\<lambda>s. s),
      path_join = (\<lambda>a b. a @ ''/'' @ b),
      path_join_TypeError = JsError ''not a string'' ''TypeError: not a string'',
      writeFileAsync = (\<lambda>p c. None),
      headerRejectsFirst = True\<rparr>"

text \<open>The same run, except that writing \<open>out/a.cc\<close> fails.\<close>

definition write_failing_env :: env where
  "write_failing_env =
     example_env\<lparr>writeFileAsync :=
       (\<lambda>p c. if p = ''out/a.cc'' then Some (JsError ''EACCES'' ''Error: EACCES'') else None)\<rparr>"

section \<open>Properties of the command line\<close>

lemma indexOfFrom_absent: "x \<notin> set xs \<Longrightarrow> indexOfFrom xs x k = - 1"
  by (induction xs arbitrary: k) auto

lemma indexOfFrom_first:
  "i < length xs \<Longrightarrow> xs ! i = x \<Longrightarrow> (\<forall>j < i. xs ! j \<noteq> x) \<Longrightarrow>
   indexOfFrom xs x k = k + int i"
proof (induction xs arbitrary: i k)
  case Nil
  then show ?case by simp
next
  case (Cons y ys)
  show ?case
  proof (cases i)
    case 0
    with Cons.prems show ?thesis by simp
  next
    case (Suc n)
    from Cons.prems Suc have "y \<noteq> x" by auto
    moreover have "indexOfFrom ys x (k + 1) = (k + 1) + int n"
    proof (rule Cons.IH)
      show "n < length ys" using Cons.prems Suc by simp
      show "ys ! n = x" using Cons.prems Suc by simp
      show "\<forall>j < n. ys ! j \<noteq> x"
      proof (intro allI impI)
        fix j assume "j < n"
        then have "Suc j < i" using Suc by simp
        with Cons.prems have "(y # ys) ! Suc j \<noteq> x" by blast
        then show "ys ! j \<noteq> x" by simp
      qed
    qed
    ultimately show ?thesis using Suc by simp
  qed
qed

lemma indexOf_absent: "x \<notin> set xs \<Longrightarrow> indexOf xs x = - 1"
  by (simp add: indexOf_def indexOfFrom_absent)

lemma indexOf_first:
  "i < length xs \<Longrightarrow> xs ! i = x \<Longrightarrow> (\<forall>j < i. xs ! j \<noteq> x) \<Longrightarrow> indexOf xs x = int i"
  using indexOfFrom_first [of i xs x 0] by (simp add: indexOf_def)

text \<open>
  Claim C10. \<open>parseArguments\<close> has no failing branch: for every argument list it returns an
  \<open>Arguments\<close> object. Each field is the element that follows the first occurrence of
  its flag (position \<open>i + 1\<close> when the first occurrence is at position \<open>i\<close>); when the flag
  does not occur, \<open>indexOf\<close> gives \<open>-1\<close> and the field is the element at index 0. As in
  JavaScript, an element read past the end of the list is \<open>undefined\<close> (\<open>None\<close>), which is
  a value of the field and not an error.
\<close>

theorem parseArguments_total:
  fixes args :: "string list"
  shows
    "(''--root_gen_dir'' \<notin> set args \<longrightarrow> rootGenDir (parseArguments args) = element args 0)
   \<and> (''--output_header'' \<notin> set args \<longrightarrow>
        outputHeaderFilePath (parseArguments args) = element args 0)
   \<and> (''--output_cc'' \<notin> set args \<longrightarrow> outputCCFilePath (parseArguments args) = element args 0)
   \<and> (\<forall>i. i < length args \<and> args ! i = ''--root_gen_dir''
          \<and> (\<forall>j < i. args ! j \<noteq> ''--root_gen_dir'')
        \<longrightarrow> rootGenDir (parseArguments args) = element args (int i + 1)
          \<and> (Suc i < length args \<longrightarrow> rootGenDir (parseArguments args) = Some (args ! Suc i)))
   \<and> (\<forall>i. i < length args \<and> args ! i = ''--output_header''
          \<and> (\<forall>j < i. args ! j \<noteq> ''--output_header'')
        \<longrightarrow> outputHeaderFilePath (parseArguments args) = element args (int i + 1)
          \<and> (Suc i < length args \<longrightarrow>
                outputHeaderFilePath (parseArguments args) = Some (args ! Suc i)))
   \<and> (\<forall>i. i < length args \<and> args ! i = ''--output_cc''
          \<and> (\<forall>j < i. args ! j \<noteq> ''--output_cc'')
        \<longrightarrow> outputCCFilePath (parseArguments args) = element args (int i + 1)
          \<and> (Suc i < length args \<longrightarrow>
                outputCCFilePath (parseArguments args) = Some (args ! Suc i)))"
proof -
  have absent: "f \<notin> set args \<longrightarrow> element args (indexOf args f + 1) = element args 0" for f
    by (simp add: indexOf_absent)
  have present: "\<forall>i. i < length args \<and> args ! i = f \<and> (\<forall>j < i. args ! j \<noteq> f)
      \<longrightarrow> element args (indexOf args f + 1) = element args (int i + 1)
        \<and> (Suc i < length args \<longrightarrow> element args (indexOf args f + 1) = Some (args ! Suc i))"
    for f
  proof (intro allI impI)
    fix i
    assume h: "i < length args \<and> args ! i = f \<and> (\<forall>j < i. args ! j \<noteq> f)"
    then have "indexOf args f = int i"
      using indexOf_first [of i args f] by blast
    then show "element args (indexOf args f + 1) = element args (int i + 1)
        \<and> (Suc i < length args \<longrightarrow> element args (indexOf args f + 1) = Some (args ! Suc i))"
      by (simp add: element_def nat_add_distrib)
  qed
  have fields:
    "rootGenDir (parseArguments args) = element args (indexOf args ''--root_gen_dir'' + 1)"
    "outputHeaderFilePath (parseArguments args)
       = element args (indexOf args ''--output_header'' + 1)"
    "outputCCFilePath (parseArguments args) = element args (indexOf args ''--output_cc'' + 1)"
    by (simp_all add: parseArguments_def Let_def)
  show ?thesis
    unfolding fields
    by (intro conjI absent present)
qed

theorem parseArguments_total_witness:
  "parseArguments [''node'', ''gen.js'', ''--root_gen_dir'', ''out'', ''--output_header'']
     = \<lparr>rootGenDir = Some ''out'', outputHeaderFilePath = None,
        outputCCFilePath = Some ''node''\<rparr>
   \<and> ''--output_cc'' \<notin> set [''node'', ''gen.js'', ''--root_gen_dir'', ''out'', ''--output_header'']
   \<and> [''node'', ''gen.js'', ''--root_gen_dir'', ''out'', ''--output_header''] ! 2
       = ''--root_gen_dir''"
  using parseArguments_total
    [of "[''node'', ''gen.js'', ''--root_gen_dir'', ''out'', ''--output_header'']"]
  by (simp add: parseArguments_def indexOf_def element_def)

section \<open>Properties of the gate\<close>

text \<open>Over all runs, the process exits with status 1 without calling the generation step
  in exactly two ways: the parse step threw (the handler of line 47, before the gate), or
  the gate found a blocking report (line 64).\<close>

lemma exit_before_generation:
  "(exitCode (main e) = 1 \<and> Call_generateDevToolsLocalizedStrings \<notin> set (events (main e)))
     \<longleftrightarrow> ((\<exists>err. parseLocalizableResourceMaps e = Inl err)
          \<or> truthy (getAndReportResourcesToAdd e) \<or> truthy (getAndReportIDSKeysToModify e))"
  by (cases "parseLocalizableResourceMaps e")
     (auto simp: main_def Let_def split: prod.splits sum.splits)

text \<open>
  Claim C1. In every run in which the parse step returned, so that the gate of lines 50 to
  64 is reached, the process exits with status 1 without calling the generation step if and
  only if the \<open>toAdd\<close> report or the \<open>toModify\<close> report is truthy (a non-empty string).
  When neither is, the generation step is called, whatever the \<open>toRemove\<close> report is:
  a non-empty \<open>toRemove\<close> report alone does not block.
\<close>

theorem gate_blocks_iff:
  assumes "parseLocalizableResourceMaps e = Inr frontendStrings"
  shows "((exitCode (main e) = 1
            \<and> Call_generateDevToolsLocalizedStrings \<notin> set (events (main e)))
          \<longleftrightarrow> (truthy (getAndReportResourcesToAdd e) \<or> truthy (getAndReportIDSKeysToModify e)))
       \<and> (\<not> truthy (getAndReportResourcesToAdd e) \<and> \<not> truthy (getAndReportIDSKeysToModify e)
            \<longrightarrow> Call_generateDevToolsLocalizedStrings \<in> set (events (main e)))"
  using assms
  by (auto simp: main_def Let_def split: prod.splits sum.splits)

theorem gate_blocks_iff_witness:
  "parseLocalizableResourceMaps (example_env\<lparr>getAndReportResourcesToRemove := Some ''stale''\<rparr>)
     = Inr [(''IDS_A'', \<lparr>string = ''Hello''\<rparr>), (''IDS_B'', \<lparr>string = ''World''\<rparr>)]
   \<and> \<not> truthy (getAndReportResourcesToAdd
          (example_env\<lparr>getAndReportResourcesToRemove := Some ''stale''\<rparr>))
   \<and> \<not> truthy (getAndReportIDSKeysToModify
          (example_env\<lparr>getAndReportResourcesToRemove := Some ''stale''\<rparr>))
   \<and> Call_generateDevToolsLocalizedStrings
        \<in> set (events (main (example_env\<lparr>getAndReportResourcesToRemove := Some ''stale''\<rparr>)))
   \<and> truthy (getAndReportResourcesToAdd (example_env\<lparr>getAndReportResourcesToAdd := Some ''new''\<rparr>))
   \<and> exitCode (main (example_env\<lparr>getAndReportResourcesToAdd := Some ''new''\<rparr>)) = 1
   \<and> Call_generateDevToolsLocalizedStrings
        \<notin> set (events (main (example_env\<lparr>getAndReportResourcesToAdd := Some ''new''\<rparr>)))"
  using gate_blocks_iff [of "example_env\<lparr>getAndReportResourcesToRemove := Some ''stale''\<rparr>"
      "[(''IDS_A'', \<lparr>string = ''Hello''\<rparr>), (''IDS_B'', \<lparr>string = ''World''\<rparr>)]"]
    gate_blocks_iff [of "example_env\<lparr>getAndReportResourcesToAdd := Some ''new''\<rparr>"
      "[(''IDS_A'', \<lparr>string = ''Hello''\<rparr>), (''IDS_B'', \<lparr>string = ''World''\<rparr>)]"]
  by (simp add: example_env_def truthy_def)

text \<open>
  Claim C2. When the \<open>toAdd\<close> report or the \<open>toModify\<close> report is non-empty, the run
  ends with status 1, the generation step is not called and no file write is issued, so
  neither the declaration file nor the definition file is touched.
\<close>

theorem blocking_diffs_write_nothing:
  assumes "truthy (getAndReportResourcesToAdd e) \<or> truthy (getAndReportIDSKeysToModify e)"
  shows "exitCode (main e) = 1
       \<and> Call_generateDevToolsLocalizedStrings \<notin> set (events (main e))
       \<and> (\<forall>p c. Call_writeFileAsync p c \<notin> set (events (main e)))"
  using assms
  by (cases "parseLocalizableResourceMaps e") (auto simp: main_def Let_def)

theorem blocking_diffs_write_nothing_witness:
  "truthy (getAndReportIDSKeysToModify (example_env\<lparr>getAndReportIDSKeysToModify := Some ''IDS_A''\<rparr>))
   \<and> exitCode (main (example_env\<lparr>getAndReportIDSKeysToModify := Some ''IDS_A''\<rparr>)) = 1
   \<and> Call_generateDevToolsLocalizedStrings
        \<notin> set (events (main (example_env\<lparr>getAndReportIDSKeysToModify := Some ''IDS_A''\<rparr>)))
   \<and> Call_writeFileAsync ''out/a.h''
        (outputHeaderFileContent [(''IDS_A'', \<lparr>string = ''Hello''\<rparr>), (''IDS_B'', \<lparr>string = ''World''\<rparr>)])
        \<notin> set (events (main (example_env\<lparr>getAndReportIDSKeysToModify := Some ''IDS_A''\<rparr>)))"
  using blocking_diffs_write_nothing [of "example_env\<lparr>getAndReportIDSKeysToModify := Some ''IDS_A''\<rparr>"]
  by (simp add: example_env_def truthy_def)

text \<open>
  Claim C6. When \<open>parseLocalizableResourceMaps\<close> throws, the run logs the error and exits
  with status 1 at once: these are its only effects, so the generation step is not
  called, no file is written and none of the three diff reports is read.
\<close>

theorem parse_failure_aborts:
  assumes "parseLocalizableResourceMaps e = Inl err"
  shows "main e = \<lparr>events = [Call_parseLocalizableResourceMaps, Console_log_error err], exitCode = 1\<rparr>
       \<and> exitCode (main e) \<noteq> 0
       \<and> Call_generateDevToolsLocalizedStrings \<notin> set (events (main e))
       \<and> (\<forall>p c. Call_writeFileAsync p c \<notin> set (events (main e)))
       \<and> Call_getAndReportResourcesToAdd \<notin> set (events (main e))
       \<and> Call_getAndReportIDSKeysToModify \<notin> set (events (main e))
       \<and> Call_getAndReportResourcesToRemove \<notin> set (events (main e))"
  using assms by (simp add: main_def Let_def)

theorem parse_failure_aborts_witness:
  "parseLocalizableResourceMaps
      (example_env\<lparr>parseLocalizableResourceMaps := Inl (JsError ''bad grd'' ''Error: bad grd'')\<rparr>)
     = Inl (JsError ''bad grd'' ''Error: bad grd'')
   \<and> main (example_env\<lparr>parseLocalizableResourceMaps := Inl (JsError ''bad grd'' ''Error: bad grd'')\<rparr>)
     = \<lparr>events = [Call_parseLocalizableResourceMaps,
                  Console_log_error (JsError ''bad grd'' ''Error: bad grd'')],
        exitCode = 1\<rparr>"
  using parse_failure_aborts
    [of "example_env\<lparr>parseLocalizableResourceMaps := Inl (JsError ''bad grd'' ''Error: bad grd'')\<rparr>"
        "JsError ''bad grd'' ''Error: bad grd''"]
  by (simp add: example_env_def)

lemma error_of_reports_empty_iff:
  "error_of_reports a m r = [] \<longleftrightarrow> \<not> truthy a \<and> \<not> truthy m \<and> \<not> truthy r"
  by (simp add: error_of_reports_def)

lemma truthy_iff: "truthy v \<longleftrightarrow> (\<exists>s. v = Some s \<and> s \<noteq> [])"
  by (cases v) (simp_all add: truthy_def)

lemma report_line:
  "(if truthy v then js_to_string v @ ''\<newline>'' else [])
     = (case v of None \<Rightarrow> [] | Some s \<Rightarrow> if s = [] then [] else s @ ''\<newline>'')"
  by (cases v) (simp_all add: truthy_def js_to_string_def)

text \<open>
  Claim C8. In a run that reaches the gate, a report is non-empty when it is a string
  other than the empty one. When at least one of the three reports is non-empty, the
  first thing done after reading them is to print one message: each non-empty report
  followed by a newline, in the order \<open>toAdd\<close>, \<open>toModify\<close>, \<open>toRemove\<close>, then an empty line
  and the one line that points to the autofix tool,
  \<open>The errors are potentially fixable with `node
  third_party/devtools-frontend/src/scripts/check_localizable_resources.js --autofix`\<close>.
  When all three are empty, nothing is printed and the generation step is called next.
  A non-empty \<open>toRemove\<close> report alone is printed and the generation step is still called.
\<close>

theorem diagnostics_printed:
  assumes "parseLocalizableResourceMaps e = Inr frontendStrings"
  defines "toAdd \<equiv> getAndReportResourcesToAdd e"
      and "toModify \<equiv> getAndReportIDSKeysToModify e"
      and "toRemove \<equiv> getAndReportResourcesToRemove e"
  defines "nonempty \<equiv> (\<lambda>v :: string option. \<exists>s. v = Some s \<and> s \<noteq> [])"
      and "line \<equiv> (\<lambda>v :: string option.
                     case v of None \<Rightarrow> [] | Some s \<Rightarrow> if s = [] then [] else s @ ''\<newline>'')"
      and "pointer \<equiv> ''\<newline>The errors are potentially fixable with `node third_party/devtools-frontend/src/scripts/check_localizable_resources.js --autofix`''"
  defines "msg \<equiv> line toAdd @ line toModify @ line toRemove @ pointer"
  shows "(nonempty toAdd \<or> nonempty toModify \<or> nonempty toRemove \<longrightarrow>
            prefix [Call_parseLocalizableResourceMaps, Call_getAndReportResourcesToAdd,
                    Call_getAndReportIDSKeysToModify, Call_getAndReportResourcesToRemove,
                    Console_log msg] (events (main e))
          \<and> suffix pointer msg
          \<and> (\<forall>s. toAdd = Some s \<and> s \<noteq> [] \<longrightarrow> sublist s msg)
          \<and> (\<forall>s. toModify = Some s \<and> s \<noteq> [] \<longrightarrow> sublist s msg)
          \<and> (\<forall>s. toRemove = Some s \<and> s \<noteq> [] \<longrightarrow> sublist s msg))
       \<and> (\<not> nonempty toAdd \<and> \<not> nonempty toModify \<and> \<not> nonempty toRemove \<longrightarrow>
            prefix [Call_parseLocalizableResourceMaps, Call_getAndReportResourcesToAdd,
                    Call_getAndReportIDSKeysToModify, Call_getAndReportResourcesToRemove,
                    Call_generateDevToolsLocalizedStrings] (events (main e)))
       \<and> (\<forall>s. toRemove = Some s \<and> s \<noteq> [] \<and> \<not> nonempty toAdd \<and> \<not> nonempty toModify \<longrightarrow>
            Console_log (s @ ''\<newline>'' @ pointer) \<in> set (events (main e))
          \<and> Call_generateDevToolsLocalizedStrings \<in> set (events (main e)))
       \<and> pointer = CHR 0x0A # ''The errors are potentially fixable with `node third_party/devtools-frontend/src/scripts/check_localizable_resources.js --autofix`''
       \<and> CHR 0x0A \<notin> set ''The errors are potentially fixable with `node third_party/devtools-frontend/src/scripts/check_localizable_resources.js --autofix`''"
proof -
  have pointer_eq: "pointer = autofix_pointer"
    by (simp add: pointer_def autofix_pointer_def)
  have line_eq: "line v = (if truthy v then js_to_string v @ ''\<newline>'' else [])" for v
    by (simp add: line_def report_line)
  have nonempty_eq: "nonempty v = truthy v" for v
    by (simp add: nonempty_def truthy_iff)
  have msg_eq: "msg = error_of_reports toAdd toModify toRemove @ autofix_pointer"
    by (simp add: msg_def line_eq pointer_eq error_of_reports_def)
  have some: "truthy v \<and> js_to_string v = s" if "v = Some s \<and> s \<noteq> []" for v s
    using that by (simp add: truthy_def js_to_string_def)
  have any: "error_of_reports toAdd toModify toRemove \<noteq> []
      \<longleftrightarrow> truthy toAdd \<or> truthy toModify \<or> truthy toRemove"
    by (simp add: error_of_reports_empty_iff)
  have printed: "prefix [Call_parseLocalizableResourceMaps, Call_getAndReportResourcesToAdd,
                    Call_getAndReportIDSKeysToModify, Call_getAndReportResourcesToRemove,
                    Console_log msg] (events (main e))"
    if "truthy toAdd \<or> truthy toModify \<or> truthy toRemove"
    using that assms(1) any
    unfolding msg_eq toAdd_def toModify_def toRemove_def
    by (auto simp: main_def Let_def split: prod.splits sum.splits)
  have silent: "prefix [Call_parseLocalizableResourceMaps, Call_getAndReportResourcesToAdd,
                    Call_getAndReportIDSKeysToModify, Call_getAndReportResourcesToRemove,
                    Call_generateDevToolsLocalizedStrings] (events (main e))"
    if "\<not> truthy toAdd \<and> \<not> truthy toModify \<and> \<not> truthy toRemove"
    using that assms(1) any
    unfolding toAdd_def toModify_def toRemove_def
    by (auto simp: main_def Let_def split: prod.splits sum.splits)
  have ends: "suffix pointer msg"
    by (simp add: msg_def suffix_def)
  have add: "sublist s msg" if "toAdd = Some s \<and> s \<noteq> []" for s
    unfolding sublist_def
    by (rule exI [of _ "[]"],
        rule exI [of _ "''\<newline>'' @ line toModify @ line toRemove @ pointer"])
       (simp add: that msg_def line_def)
  have modify: "sublist s msg" if "toModify = Some s \<and> s \<noteq> []" for s
    unfolding sublist_def
    by (rule exI [of _ "line toAdd"],
        rule exI [of _ "''\<newline>'' @ line toRemove @ pointer"])
       (simp add: that msg_def line_def)
  have remove: "sublist s msg" if "toRemove = Some s \<and> s \<noteq> []" for s
    unfolding sublist_def
    by (rule exI [of _ "line toAdd @ line toModify"],
        rule exI [of _ "''\<newline>'' @ pointer"])
       (simp add: that msg_def line_def)
  have alone: "Console_log (s @ ''\<newline>'' @ pointer) \<in> set (events (main e))
          \<and> Call_generateDevToolsLocalizedStrings \<in> set (events (main e))"
    if "toRemove = Some s \<and> s \<noteq> [] \<and> \<not> nonempty toAdd \<and> \<not> nonempty toModify" for s
  proof -
    from that have r: "truthy toRemove" "js_to_string toRemove = s"
      using some [of toRemove s] by simp_all
    from that have n: "\<not> truthy toAdd" "\<not> truthy toModify"
      by (simp_all add: nonempty_eq)
    show ?thesis
      using r n assms(1) any
      unfolding pointer_eq toAdd_def toModify_def toRemove_def
      by (auto simp: main_def Let_def error_of_reports_def split: prod.splits sum.splits)
  qed
  have shape: "pointer = CHR 0x0A # ''The errors are potentially fixable with `node third_party/devtools-frontend/src/scripts/check_localizable_resources.js --autofix`''"
    by (simp add: pointer_def)
  have one_line: "CHR 0x0A \<notin> set ''The errors are potentially fixable with `node third_party/devtools-frontend/src/scripts/check_localizable_resources.js --autofix`''"
    by simp
  show ?thesis
    unfolding nonempty_eq
    using printed silent ends add modify remove alone [unfolded nonempty_eq] shape one_line
    by blast
qed

theorem diagnostics_printed_witness:
  "parseLocalizableResourceMaps (example_env\<lparr>getAndReportResourcesToRemove := Some ''stale IDS_E''\<rparr>) = Inr [(''IDS_A'', \<lparr>string = ''Hello''\<rparr>), (''IDS_B'', \<lparr>string = ''World''\<rparr>)]
   \<and> getAndReportResourcesToRemove (example_env\<lparr>getAndReportResourcesToRemove := Some ''stale IDS_E''\<rparr>) = Some ''stale IDS_E''
   \<and> getAndReportResourcesToAdd (example_env\<lparr>getAndReportResourcesToRemove := Some ''stale IDS_E''\<rparr>) = None
   \<and> getAndReportIDSKeysToModify (example_env\<lparr>getAndReportResourcesToRemove := Some ''stale IDS_E''\<rparr>) = None
   \<and> Console_log (''stale IDS_E'' @ ''\<newline>'' @ ''\<newline>The errors are potentially fixable with `node third_party/devtools-frontend/src/scripts/check_localizable_resources.js --autofix`'')
        \<in> set (events (main (example_env\<lparr>getAndReportResourcesToRemove := Some ''stale IDS_E''\<rparr>)))
   \<and> Call_generateDevToolsLocalizedStrings \<in> set (events (main (example_env\<lparr>getAndReportResourcesToRemove := Some ''stale IDS_E''\<rparr>)))
   \<and> getAndReportResourcesToRemove example_env = None
   \<and> prefix [Call_parseLocalizableResourceMaps, Call_getAndReportResourcesToAdd,
              Call_getAndReportIDSKeysToModify, Call_getAndReportResourcesToRemove,
              Call_generateDevToolsLocalizedStrings] (events (main example_env))"
proof -
  have facts: "parseLocalizableResourceMaps (example_env\<lparr>getAndReportResourcesToRemove := Some ''stale IDS_E''\<rparr>) = Inr [(''IDS_A'', \<lparr>string = ''Hello''\<rparr>), (''IDS_B'', \<lparr>string = ''World''\<rparr>)]"
    "getAndReportResourcesToRemove (example_env\<lparr>getAndReportResourcesToRemove := Some ''stale IDS_E''\<rparr>) = Some ''stale IDS_E''"
    "getAndReportResourcesToAdd (example_env\<lparr>getAndReportResourcesToRemove := Some ''stale IDS_E''\<rparr>) = None"
    "getAndReportIDSKeysToModify (example_env\<lparr>getAndReportResourcesToRemove := Some ''stale IDS_E''\<rparr>) = None"
    by (simp_all add: example_env_def)
  have plain: "parseLocalizableResourceMaps example_env = Inr [(''IDS_A'', \<lparr>string = ''Hello''\<rparr>), (''IDS_B'', \<lparr>string = ''World''\<rparr>)]"
    "getAndReportResourcesToRemove example_env = None"
    "getAndReportResourcesToAdd example_env = None"
    "getAndReportIDSKeysToModify example_env = None"
    by (simp_all add: example_env_def)
  have "Console_log (''stale IDS_E'' @ ''\<newline>'' @ ''\<newline>The errors are potentially fixable with `node third_party/devtools-frontend/src/scripts/check_localizable_resources.js --autofix`'')
        \<in> set (events (main (example_env\<lparr>getAndReportResourcesToRemove := Some ''stale IDS_E''\<rparr>)))
      \<and> Call_generateDevToolsLocalizedStrings \<in> set (events (main (example_env\<lparr>getAndReportResourcesToRemove := Some ''stale IDS_E''\<rparr>)))"
    using diagnostics_printed [OF facts(1), THEN conjunct2, THEN conjunct2, THEN conjunct1,
        THEN spec, of "''stale IDS_E''"]
    by (simp add: facts)
  moreover have "prefix [Call_parseLocalizableResourceMaps, Call_getAndReportResourcesToAdd,
              Call_getAndReportIDSKeysToModify, Call_getAndReportResourcesToRemove,
              Call_generateDevToolsLocalizedStrings] (events (main example_env))"
    using diagnostics_printed [OF plain(1), THEN conjunct2, THEN conjunct1]
    by (simp add: plain)
  ultimately show ?thesis
    using facts plain(2) by simp
qed

section \<open>Properties of the generation step\<close>

lemma forEach_mappingsStr_concat:
  \<open>forEach_mappingsStr f fm acc =
     acc @ concat (map (\<lambda>(idsKey, frontendString).
                     ''  {"'' @ f (string frontendString) @ ''", '' @ idsKey @ ''},\<newline>'') fm)\<close>
  by (induction fm arbitrary: acc) auto

text \<open>
  Claim C3. For every \<open>finalMap\<close>, the content of the definition file is the banner, the
  two includes and the opening of the array, then one line \<open>{"sanitized text", idKey},\<close>
  for each entry of \<open>finalMap\<close>, in the iteration order of \<open>finalMap\<close>, then the closing
  lines; and this content is what the generation step writes to the joined path of the
  definition file. The statement is about every list of entries, hence about every
  order of a fixed set of keys.
\<close>

theorem definition_artifact_entries:
  \<open>outputCCFileContent e args finalMap =
      doNotEditStr @ ''\<newline>''
      @ ''\<newline>''
      @ ''#include "'' @ js_to_string (outputHeaderFilePath args) @ ''"\<newline>''
      @ ''\<newline>''
      @ ''#include "third_party/devtools-frontend/src/front_end/langpacks/devtools_ui_strings.h"\<newline>''
      @ ''\<newline>''
      @ ''namespace devtools {\<newline>''
      @ ''\<newline>''
      @ ''const LocalizedString kLocalizedStrings[] = {\<newline>''
      @ concat (map (\<lambda>(idKey, text).
                  ''  {"'' @ sanitizeStringIntoCppFormat e (string text) @ ''", '' @ idKey
                    @ ''},\<newline>'') finalMap)
      @ ''};\<newline>''
      @ ''\<newline>''
      @ ''} // namespace devtools\<newline>''
   \<and> (\<forall>r h c. rootGenDir args = Some r \<and> outputHeaderFilePath args = Some h
          \<and> outputCCFilePath args = Some c
        \<longrightarrow> Call_writeFileAsync (path_join e r c) (outputCCFileContent e args finalMap)
              \<in> set (fst (generateDevToolsLocalizedStrings e args finalMap)))\<close>
proof
  show \<open>outputCCFileContent e args finalMap =
      doNotEditStr @ ''\<newline>''
      @ ''\<newline>''
      @ ''#include "'' @ js_to_string (outputHeaderFilePath args) @ ''"\<newline>''
      @ ''\<newline>''
      @ ''#include "third_party/devtools-frontend/src/front_end/langpacks/devtools_ui_strings.h"\<newline>''
      @ ''\<newline>''
      @ ''namespace devtools {\<newline>''
      @ ''\<newline>''
      @ ''const LocalizedString kLocalizedStrings[] = {\<newline>''
      @ concat (map (\<lambda>(idKey, text).
                  ''  {"'' @ sanitizeStringIntoCppFormat e (string text) @ ''", '' @ idKey
                    @ ''},\<newline>'') finalMap)
      @ ''};\<newline>''
      @ ''\<newline>''
      @ ''} // namespace devtools\<newline>''\<close>
    unfolding outputCCFileContent_def Let_def forEach_mappingsStr_concat [of _ _ "[]"]
    by simp
  show "\<forall>r h c. rootGenDir args = Some r \<and> outputHeaderFilePath args = Some h
          \<and> outputCCFilePath args = Some c
        \<longrightarrow> Call_writeFileAsync (path_join e r c) (outputCCFileContent e args finalMap)
              \<in> set (fst (generateDevToolsLocalizedStrings e args finalMap))"
    by (simp add: generateDevToolsLocalizedStrings_def path_join_js_def Let_def)
qed

lemma example_args:
  "parseArguments (argv example_env)
     = \<lparr>rootGenDir = Some ''out'', outputHeaderFilePath = Some ''a.h'',
        outputCCFilePath = Some ''a.cc''\<rparr>"
  by (simp add: example_env_def parseArguments_def indexOf_def element_def)

theorem definition_artifact_entries_witness:
  \<open>rootGenDir (parseArguments (argv example_env)) = Some ''out''
   \<and> outputHeaderFilePath (parseArguments (argv example_env)) = Some ''a.h''
   \<and> outputCCFilePath (parseArguments (argv example_env)) = Some ''a.cc''
   \<and> Call_writeFileAsync ''out/a.cc''
        (outputCCFileContent example_env (parseArguments (argv example_env))
           [(''IDS_B'', \<lparr>string = ''World''\<rparr>), (''IDS_A'', \<lparr>string = ''Hello''\<rparr>)])
      \<in> set (fst (generateDevToolsLocalizedStrings example_env (parseArguments (argv example_env))
           [(''IDS_B'', \<lparr>string = ''World''\<rparr>), (''IDS_A'', \<lparr>string = ''Hello''\<rparr>)]))
   \<and> forEach_mappingsStr (sanitizeStringIntoCppFormat example_env)
        [(''IDS_B'', \<lparr>string = ''World''\<rparr>), (''IDS_A'', \<lparr>string = ''Hello''\<rparr>)] []
      = ''  {"World", IDS_B},\<newline>  {"Hello", IDS_A},\<newline>''\<close>
  using definition_artifact_entries [THEN conjunct2, of "parseArguments (argv example_env)"
      example_env "[(''IDS_B'', \<lparr>string = ''World''\<rparr>), (''IDS_A'', \<lparr>string = ''Hello''\<rparr>)]"]
  by (simp add: example_args) (simp add: example_env_def)

lemma digit_below_digit_char: "d < base \<Longrightarrow> base \<le> 10 \<Longrightarrow> digit_below base (digit_char d) = Some d"
  by (simp add: digit_below_def digit_char_def Let_def)

lemma numeral_value_from_append:
  "numeral_value_from base (xs @ ys) acc =
     (case numeral_value_from base xs acc of
        None \<Rightarrow> None
      | Some a \<Rightarrow> numeral_value_from base ys a)"
  by (induction xs arbitrary: acc) (auto split: option.splits)

lemma number_toString_nonempty: "number_toString n \<noteq> []"
  by (subst number_toString.simps) simp

lemma decimal_value_number_toString: "numeral_value_from 10 (number_toString n) 0 = Some n"
proof (induction n rule: number_toString.induct)
  case (1 n)
  show ?case
  proof (cases "n < 10")
    case True
    then show ?thesis
      by (subst number_toString.simps) (simp add: digit_below_digit_char)
  next
    case False
    with 1 have "numeral_value_from 10 (number_toString (n div 10)) 0 = Some (n div 10)"
      by simp
    with False show ?thesis
      by (subst number_toString.simps)
         (simp add: numeral_value_from_append digit_below_digit_char)
  qed
qed

lemma digit_char_zero: "digit_char 0 = CHR ''0''"
  by code_simp

lemma digit_char_nonzero: "0 < d \<Longrightarrow> d < 10 \<Longrightarrow> digit_char d \<noteq> CHR ''0''"
proof
  assume d: "0 < d" "d < 10" and eq: "digit_char d = CHR ''0''"
  have "(of_char (digit_char d) :: nat) = 48 + d"
    using d by (simp add: digit_char_def)
  moreover have "(of_char (CHR ''0'') :: nat) = 48"
    by simp
  ultimately show False
    using d eq by simp
qed

lemma number_toString_zero: "number_toString 0 = ''0''"
  by (subst number_toString.simps) (simp add: digit_char_zero)

lemma number_toString_no_leading_zero: "0 < n \<Longrightarrow> hd (number_toString n) \<noteq> CHR ''0''"
proof (induction n rule: number_toString.induct)
  case (1 n)
  show ?case
  proof (cases "n < 10")
    case True
    with "1.prems" show ?thesis
      by (subst number_toString.simps) (simp add: digit_char_nonzero)
  next
    case False
    then have "0 < n div 10" by simp
    with 1 False have "hd (number_toString (n div 10)) \<noteq> CHR ''0''" by simp
    with False show ?thesis
      by (subst number_toString.simps) (simp add: number_toString_nonempty)
  qed
qed

lemma integer_literal_value_octal: "integer_literal_value ''010'' = Some 8"
  by (simp add: integer_literal_value_def digit_below_def)

lemma integer_literal_value_number_toString:
  "integer_literal_value (number_toString n) = Some n"
proof (cases "n = 0")
  case True
  then show ?thesis
    by (simp add: number_toString_zero integer_literal_value_def)
next
  case False
  then have "hd (number_toString n) \<noteq> CHR ''0''"
    by (simp add: number_toString_no_leading_zero)
  moreover obtain c cs where "number_toString n = c # cs"
    using number_toString_nonempty [of n] by (cases "number_toString n") auto
  ultimately show ?thesis
    using decimal_value_number_toString [of n] by (simp add: integer_literal_value_def)
qed

text \<open>
  Claim C4. For every \<open>finalMap\<close>, the content of the declaration file is, in this order
  and with nothing else: the do-not-edit banner, the include guard, the include of
  \<open>localized_string.h\<close>, the constant \<open>kLocalizedStringsSize\<close> and the external declaration
  of the array \<open>kLocalizedStrings\<close> of that size, in namespace \<open>devtools\<close>. The constant is
  written as a numeral that a C++ compiler reads as the number of entries of \<open>finalMap\<close>:
  it is \<open>0\<close> for the empty map and starts with a digit other than \<open>0\<close> otherwise, so it is
  never read as octal. This content is what the generation step writes to the joined path
  of the declaration file.
\<close>

theorem declaration_artifact_content:
  \<open>outputHeaderFileContent finalMap =
      ''// This file is automatically generated by //third_party/devtools-frontend/src/scripts/build/generate_devtools_ui_strings.js. Do not edit.\<newline>''
      @ ''\<newline>''
      @ ''#ifndef CHROME_BROWSER_UI_WEBUI_DEVTOOLS_UI_STRINGS_H_\<newline>''
      @ ''#define CHROME_BROWSER_UI_WEBUI_DEVTOOLS_UI_STRINGS_H_\<newline>''
      @ ''\<newline>''
      @ ''#include "chrome/browser/ui/webui/localized_string.h"\<newline>''
      @ ''\<newline>''
      @ ''namespace devtools {\<newline>''
      @ ''\<newline>''
      @ ''constexpr unsigned int kLocalizedStringsSize = ''
          @ number_toString (length finalMap) @ '';\<newline>''
      @ ''extern const LocalizedString kLocalizedStrings[kLocalizedStringsSize];\<newline>''
      @ ''\<newline>''
      @ ''} // namespace devtools\<newline>''
      @ ''\<newline>''
      @ ''#endif // CHROME_BROWSER_UI_WEBUI_DEVTOOLS_UI_STRINGS_H_\<newline>''
   \<and> integer_literal_value (number_toString (length finalMap)) = Some (length finalMap)
   \<and> (length finalMap = 0 \<longrightarrow> number_toString (length finalMap) = ''0'')
   \<and> (0 < length finalMap \<longrightarrow> hd (number_toString (length finalMap)) \<noteq> CHR ''0'')
   \<and> (\<forall>r h c. rootGenDir args = Some r \<and> outputHeaderFilePath args = Some h
          \<and> outputCCFilePath args = Some c
        \<longrightarrow> Call_writeFileAsync (path_join e r h) (outputHeaderFileContent finalMap)
              \<in> set (fst (generateDevToolsLocalizedStrings e args finalMap)))\<close>
proof (intro conjI)
  show "integer_literal_value (number_toString (length finalMap)) = Some (length finalMap)"
    by (rule integer_literal_value_number_toString)
  show "length finalMap = 0 \<longrightarrow> number_toString (length finalMap) = ''0''"
    by (simp add: number_toString_zero)
  show "0 < length finalMap \<longrightarrow> hd (number_toString (length finalMap)) \<noteq> CHR ''0''"
    using number_toString_no_leading_zero [of "length finalMap"] by blast
  show "\<forall>r h c. rootGenDir args = Some r \<and> outputHeaderFilePath args = Some h
          \<and> outputCCFilePath args = Some c
        \<longrightarrow> Call_writeFileAsync (path_join e r h) (outputHeaderFileContent finalMap)
              \<in> set (fst (generateDevToolsLocalizedStrings e args finalMap))"
    by (simp add: generateDevToolsLocalizedStrings_def path_join_js_def Let_def)
qed (simp add: outputHeaderFileContent_def doNotEditStr_def)

theorem declaration_artifact_content_witness:
  \<open>rootGenDir (parseArguments (argv example_env)) = Some ''out''
   \<and> outputHeaderFilePath (parseArguments (argv example_env)) = Some ''a.h''
   \<and> outputCCFilePath (parseArguments (argv example_env)) = Some ''a.cc''
   \<and> 0 < length [(''IDS_A'', \<lparr>string = ''Hello''\<rparr>), (''IDS_B'', \<lparr>string = ''World''\<rparr>)]
   \<and> Call_writeFileAsync ''out/a.h''
     (''// This file is automatically generated by //third_party/devtools-frontend/src/scripts/build/generate_devtools_ui_strings.js. Do not edit.\<newline>''
      @ ''\<newline>''
      @ ''#ifndef CHROME_BROWSER_UI_WEBUI_DEVTOOLS_UI_STRINGS_H_\<newline>''
      @ ''#define CHROME_BROWSER_UI_WEBUI_DEVTOOLS_UI_STRINGS_H_\<newline>''
      @ ''\<newline>''
      @ ''#include "chrome/browser/ui/webui/localized_string.h"\<newline>''
      @ ''\<newline>''
      @ ''namespace devtools {\<newline>''
      @ ''\<newline>''
      @ ''constexpr unsigned int kLocalizedStringsSize = ''
          @ ''2'' @ '';\<newline>''
      @ ''extern const LocalizedString kLocalizedStrings[kLocalizedStringsSize];\<newline>''
      @ ''\<newline>''
      @ ''} // namespace devtools\<newline>''
      @ ''\<newline>''
      @ ''#endif // CHROME_BROWSER_UI_WEBUI_DEVTOOLS_UI_STRINGS_H_\<newline>'')
      \<in> set (fst (generateDevToolsLocalizedStrings example_env (parseArguments (argv example_env))
           [(''IDS_A'', \<lparr>string = ''Hello''\<rparr>), (''IDS_B'', \<lparr>string = ''World''\<rparr>)]))
   \<and> integer_literal_value ''2'' = Some (length [(''IDS_A'', \<lparr>string = ''Hello''\<rparr>), (''IDS_B'', \<lparr>string = ''World''\<rparr>)])\<close>
proof -
  have two: "number_toString 2 = ''2''"
    by code_simp
  have "length [(''IDS_A'', \<lparr>string = ''Hello''\<rparr>), (''IDS_B'', \<lparr>string = ''World''\<rparr>)] = 2"
    by simp
  then have size: "number_toString (length [(''IDS_A'', \<lparr>string = ''Hello''\<rparr>), (''IDS_B'', \<lparr>string = ''World''\<rparr>)]) = ''2''"
    using two by (simp only:)
  note inst = declaration_artifact_content
    [where finalMap = "[(''IDS_A'', \<lparr>string = ''Hello''\<rparr>), (''IDS_B'', \<lparr>string = ''World''\<rparr>)]"
       and args = "parseArguments (argv example_env)" and e = example_env]
  have content: \<open>outputHeaderFileContent [(''IDS_A'', \<lparr>string = ''Hello''\<rparr>), (''IDS_B'', \<lparr>string = ''World''\<rparr>)] =
      ''// This file is automatically generated by //third_party/devtools-frontend/src/scripts/build/generate_devtools_ui_strings.js. Do not edit.\<newline>''
      @ ''\<newline>''
      @ ''#ifndef CHROME_BROWSER_UI_WEBUI_DEVTOOLS_UI_STRINGS_H_\<newline>''
      @ ''#define CHROME_BROWSER_UI_WEBUI_DEVTOOLS_UI_STRINGS_H_\<newline>''
      @ ''\<newline>''
      @ ''#include "chrome/browser/ui/webui/localized_string.h"\<newline>''
      @ ''\<newline>''
      @ ''namespace devtools {\<newline>''
      @ ''\<newline>''
      @ ''constexpr unsigned int kLocalizedStringsSize = ''
          @ ''2'' @ '';\<newline>''
      @ ''extern const LocalizedString kLocalizedStrings[kLocalizedStringsSize];\<newline>''
      @ ''\<newline>''
      @ ''} // namespace devtools\<newline>''
      @ ''\<newline>''
      @ ''#endif // CHROME_BROWSER_UI_WEBUI_DEVTOOLS_UI_STRINGS_H_\<newline>''\<close>
    using inst [THEN conjunct1] by (simp only: size)
  have "Call_writeFileAsync ''out/a.h'' (outputHeaderFileContent [(''IDS_A'', \<lparr>string = ''Hello''\<rparr>), (''IDS_B'', \<lparr>string = ''World''\<rparr>)])
      \<in> set (fst (generateDevToolsLocalizedStrings example_env (parseArguments (argv example_env))
           [(''IDS_A'', \<lparr>string = ''Hello''\<rparr>), (''IDS_B'', \<lparr>string = ''World''\<rparr>)]))"
    using inst [THEN conjunct2, THEN conjunct2, THEN conjunct2, THEN conjunct2]
    by (simp add: example_args) (simp add: example_env_def)
  then have written: \<open>Call_writeFileAsync ''out/a.h''
     (''// This file is automatically generated by //third_party/devtools-frontend/src/scripts/build/generate_devtools_ui_strings.js. Do not edit.\<newline>''
      @ ''\<newline>''
      @ ''#ifndef CHROME_BROWSER_UI_WEBUI_DEVTOOLS_UI_STRINGS_H_\<newline>''
      @ ''#define CHROME_BROWSER_UI_WEBUI_DEVTOOLS_UI_STRINGS_H_\<newline>''
      @ ''\<newline>''
      @ ''#include "chrome/browser/ui/webui/localized_string.h"\<newline>''
      @ ''\<newline>''
      @ ''namespace devtools {\<newline>''
      @ ''\<newline>''
      @ ''constexpr unsigned int kLocalizedStringsSize = ''
          @ ''2'' @ '';\<newline>''
      @ ''extern const LocalizedString kLocalizedStrings[kLocalizedStringsSize];\<newline>''
      @ ''\<newline>''
      @ ''} // namespace devtools\<newline>''
      @ ''\<newline>''
      @ ''#endif // CHROME_BROWSER_UI_WEBUI_DEVTOOLS_UI_STRINGS_H_\<newline>'')
      \<in> set (fst (generateDevToolsLocalizedStrings example_env (parseArguments (argv example_env))
           [(''IDS_A'', \<lparr>string = ''Hello''\<rparr>), (''IDS_B'', \<lparr>string = ''World''\<rparr>)]))\<close>
    by (simp only: content)
  have val: "integer_literal_value ''2'' = Some (length [(''IDS_A'', \<lparr>string = ''Hello''\<rparr>), (''IDS_B'', \<lparr>string = ''World''\<rparr>)])"
    using inst [THEN conjunct2, THEN conjunct1] by (simp only: size)
  have pos: "0 < length [(''IDS_A'', \<lparr>string = ''Hello''\<rparr>), (''IDS_B'', \<lparr>string = ''World''\<rparr>)]"
    by simp
  have args: "rootGenDir (parseArguments (argv example_env)) = Some ''out''"
    "outputHeaderFilePath (parseArguments (argv example_env)) = Some ''a.h''"
    "outputCCFilePath (parseArguments (argv example_env)) = Some ''a.cc''"
    by (simp_all add: example_args)
  show ?thesis
    by (intro conjI args pos written val)
qed

lemma Promise_all_Inr:
  "Promise_all e h c = Inr u \<longleftrightarrow> h = None \<and> c = None"
  by (auto simp: Promise_all_def split: option.splits)

lemma Promise_all_Inl:
  "Promise_all e h c = Inl err \<Longrightarrow> h = Some err \<or> c = Some err"
  by (auto simp: Promise_all_def split: option.splits if_splits)

text \<open>
  Claim C5. A run succeeds only if both writes complete. Whenever a write that the run
  issued fails, the run exits with status 1 after printing \<open>Error generating id map files:\<close>
  and the stack of a failed write. A run that ends with status 0 has issued the write of
  the declaration file and the write of the definition file, and both succeeded.
\<close>

theorem failed_write_fails_run:
  "(\<forall>p c err. Call_writeFileAsync p c \<in> set (events (main e)) \<and> writeFileAsync e p c = Some err
       \<longrightarrow> exitCode (main e) = 1
         \<and> Console_log ''Error generating id map files:'' \<in> set (events (main e))
         \<and> (\<exists>p' c' err'. Call_writeFileAsync p' c' \<in> set (events (main e))
               \<and> writeFileAsync e p' c' = Some err'
               \<and> Console_log (stack err') \<in> set (events (main e))))
   \<and> (exitCode (main e) = 0
       \<longrightarrow> (\<exists>frontendStrings r h c.
             parseLocalizableResourceMaps e = Inr frontendStrings
           \<and> rootGenDir (parseArguments (argv e)) = Some r
           \<and> outputHeaderFilePath (parseArguments (argv e)) = Some h
           \<and> outputCCFilePath (parseArguments (argv e)) = Some c
           \<and> Call_writeFileAsync (path_join e r h) (outputHeaderFileContent frontendStrings)
               \<in> set (events (main e))
           \<and> Call_writeFileAsync (path_join e r c)
                (outputCCFileContent e (parseArguments (argv e)) frontendStrings)
               \<in> set (events (main e))
           \<and> writeFileAsync e (path_join e r h) (outputHeaderFileContent frontendStrings) = None
           \<and> writeFileAsync e (path_join e r c)
                (outputCCFileContent e (parseArguments (argv e)) frontendStrings) = None))"
proof (cases "parseLocalizableResourceMaps e")
  case (Inl err)
  then show ?thesis by (simp add: main_def Let_def)
next
  case (Inr frontendStrings)
  let ?args = "parseArguments (argv e)"
  show ?thesis
  proof (cases "truthy (getAndReportResourcesToAdd e) \<or> truthy (getAndReportIDSKeysToModify e)")
    case True
    with Inr show ?thesis by (auto simp: main_def Let_def)
  next
    case False
    show ?thesis
    proof (cases "\<exists>r h c. rootGenDir ?args = Some r \<and> outputHeaderFilePath ?args = Some h
                    \<and> outputCCFilePath ?args = Some c")
      case no_string: False
      then have "generateDevToolsLocalizedStrings e ?args frontendStrings
          = ([], Inl (path_join_TypeError e))"
        by (auto simp: generateDevToolsLocalizedStrings_def path_join_js_def split: option.splits)
      with Inr False show ?thesis by (auto simp: main_def Let_def)
    next
      case True
      then obtain r h c where args: "rootGenDir ?args = Some r"
          "outputHeaderFilePath ?args = Some h" "outputCCFilePath ?args = Some c"
        by blast
      let ?H = "outputHeaderFileContent frontendStrings"
      let ?C = "outputCCFileContent e ?args frontendStrings"
      let ?writes = "[Call_writeFileAsync (path_join e r h) ?H, Call_writeFileAsync (path_join e r c) ?C]"
      let ?outcome = "Promise_all e (writeFileAsync e (path_join e r h) ?H)
                        (writeFileAsync e (path_join e r c) ?C)"
      have gen: "generateDevToolsLocalizedStrings e ?args frontendStrings = (?writes, ?outcome)"
        using args by (simp add: generateDevToolsLocalizedStrings_def path_join_js_def Let_def)
      show ?thesis
      proof (cases ?outcome)
        case rejected: (Inl err)
        then have "writeFileAsync e (path_join e r h) ?H = Some err
            \<or> writeFileAsync e (path_join e r c) ?C = Some err"
          by (rule Promise_all_Inl)
        with Inr False gen rejected show ?thesis
          by (auto simp: main_def Let_def)
      next
        case resolved: (Inr u)
        then have "writeFileAsync e (path_join e r h) ?H = None
            \<and> writeFileAsync e (path_join e r c) ?C = None"
          by (simp add: Promise_all_Inr)
        with Inr False gen resolved args show ?thesis
          by (auto simp: main_def Let_def)
      qed
    qed
  qed
qed

theorem failed_write_fails_run_witness:
  "Call_writeFileAsync ''out/a.cc''
       (outputCCFileContent write_failing_env (parseArguments (argv write_failing_env))
          [(''IDS_A'', \<lparr>string = ''Hello''\<rparr>), (''IDS_B'', \<lparr>string = ''World''\<rparr>)])
     \<in> set (events (main write_failing_env))
   \<and> writeFileAsync write_failing_env ''out/a.cc''
       (outputCCFileContent write_failing_env (parseArguments (argv write_failing_env))
          [(''IDS_A'', \<lparr>string = ''Hello''\<rparr>), (''IDS_B'', \<lparr>string = ''World''\<rparr>)])
     = Some (JsError ''EACCES'' ''Error: EACCES'')
   \<and> exitCode (main write_failing_env) = 1
   \<and> Console_log ''Error generating id map files:'' \<in> set (events (main write_failing_env))
   \<and> Console_log ''Error: EACCES'' \<in> set (events (main write_failing_env))
   \<and> exitCode (main example_env) = 0
   \<and> Call_writeFileAsync ''out/a.h''
        (outputHeaderFileContent [(''IDS_A'', \<lparr>string = ''Hello''\<rparr>), (''IDS_B'', \<lparr>string = ''World''\<rparr>)])
     \<in> set (events (main example_env))"
  using failed_write_fails_run [of write_failing_env] failed_write_fails_run [of example_env]
  by (simp add: write_failing_env_def example_env_def main_def Let_def truthy_def
        parseArguments_def indexOf_def element_def generateDevToolsLocalizedStrings_def
        path_join_js_def Promise_all_def error_of_reports_def)

text \<open>
  Claim C7. The generation step is deterministic: two runs of it with the same arguments
  and the same \<open>frontendStrings\<close> issue the same writes, with the same paths and the same
  contents byte for byte, whatever else differs between the two environments (the
  outcome of the writes, the reports, the command line). The sanitizer and \<open>path.join\<close>
  are functions of the program and its platform, the same in both runs.
\<close>

theorem generation_deterministic:
  assumes "sanitizeStringIntoCppFormat e1 = sanitizeStringIntoCppFormat e2"
      and "path_join e1 = path_join e2"
  shows "fst (generateDevToolsLocalizedStrings e1 args frontendStrings)
           = fst (generateDevToolsLocalizedStrings e2 args frontendStrings)
       \<and> outputCCFileContent e1 args frontendStrings = outputCCFileContent e2 args frontendStrings"
proof -
  have cc: "outputCCFileContent e1 args frontendStrings = outputCCFileContent e2 args frontendStrings"
    using assms(1) by (simp add: outputCCFileContent_def)
  have "fst (generateDevToolsLocalizedStrings e1 args frontendStrings)
           = fst (generateDevToolsLocalizedStrings e2 args frontendStrings)"
    using assms(2) cc
    by (simp add: generateDevToolsLocalizedStrings_def path_join_js_def Let_def
          split: option.splits)
  with cc show ?thesis by simp
qed

theorem generation_deterministic_witness:
  "sanitizeStringIntoCppFormat example_env = sanitizeStringIntoCppFormat write_failing_env
   \<and> path_join example_env = path_join write_failing_env
   \<and> writeFileAsync example_env \<noteq> writeFileAsync write_failing_env
   \<and> fst (generateDevToolsLocalizedStrings example_env (parseArguments (argv example_env))
          [(''IDS_A'', \<lparr>string = ''Hello''\<rparr>)])
     = fst (generateDevToolsLocalizedStrings write_failing_env (parseArguments (argv example_env))
          [(''IDS_A'', \<lparr>string = ''Hello''\<rparr>)])"
proof -
  have same: "sanitizeStringIntoCppFormat example_env = sanitizeStringIntoCppFormat write_failing_env"
    "path_join example_env = path_join write_failing_env"
    by (simp_all add: write_failing_env_def)
  have "writeFileAsync example_env ''out/a.cc'' [] \<noteq> writeFileAsync write_failing_env ''out/a.cc'' []"
    by (simp add: write_failing_env_def example_env_def)
  then have differ: "writeFileAsync example_env \<noteq> writeFileAsync write_failing_env"
    by metis
  show ?thesis
    using generation_deterministic [OF same, of "parseArguments (argv example_env)"
        "[(''IDS_A'', \<lparr>string = ''Hello''\<rparr>)]"] same differ
    by simp
qed

section \<open>Properties of the sanitizer\<close>

lemma octal_digit_digit_char: "d < 8 \<Longrightarrow> octal_digit (digit_char d) = Some d"
  by (simp add: octal_digit_def digit_char_def Let_def)

lemma octal_digit_backslash: "octal_digit (CHR 0x5C) = None"
  by (simp add: octal_digit_def)

lemma octal_digit_quote: "octal_digit (CHR 0x22) = None"
  by (simp add: octal_digit_def)

lemma octal_char_of_char: "octal_char (of_char c) = Some c"
  by (simp add: octal_char_def)

lemma octal_expansion: "64 * (k div 64) + 8 * (k div 8 mod 8) + k mod 8 = (k::nat)"
proof -
  have "k mod 64 = 8 * (k div 8 mod 8) + k mod 8"
    using mod_mult2_eq [of k 8 8] by simp
  moreover have "64 * (k div 64) + k mod 64 = k"
    by simp
  ultimately show ?thesis by simp
qed

lemma control_digits:
  assumes "is_control c"
  shows "(of_char c :: nat) div 64 < 8" "(of_char c :: nat) div 8 mod 8 < 8"
    "(of_char c :: nat) mod 8 < 8"
  using assms by (auto simp: is_control_def)

lemma read_escaped_char:
  "read_literal_body (sanitize_char c @ rest) = emit (Some c) (read_literal_body rest)"
proof -
  consider (backslash) "c = CHR 0x5C" | (quote) "c = CHR 0x22"
    | (control) "c \<noteq> CHR 0x5C" "c \<noteq> CHR 0x22" "is_control c"
    | (plain) "c \<noteq> CHR 0x5C" "c \<noteq> CHR 0x22" "\<not> is_control c"
    by blast
  then show ?thesis
  proof cases
    case backslash
    then show ?thesis
      by (simp add: sanitize_char_def octal_digit_backslash simple_escape_def)
  next
    case quote
    then show ?thesis
      by (simp add: sanitize_char_def octal_digit_quote simple_escape_def)
  next
    case control
    have "read_literal_body
            (CHR 0x5C # digit_char (of_char c div 64) # digit_char (of_char c div 8 mod 8)
               # digit_char (of_char c mod 8) # rest)
          = emit (octal_char (64 * (of_char c div 64) + 8 * (of_char c div 8 mod 8)
                    + of_char c mod 8)) (read_literal_body rest)"
      by (simp add: octal_digit_digit_char control_digits [OF control(3)])
    then show ?thesis
      using control by (simp add: sanitize_char_def octal_expansion octal_char_of_char)
  next
    case plain
    from plain(3) have "c \<noteq> CHR 0x0A" by (auto simp: is_control_def)
    with plain show ?thesis by (simp add: sanitize_char_def)
  qed
qed

lemma read_sanitized_body: "read_literal_body (sanitize s @ [CHR 0x22]) = Some s"
proof (induction s)
  case Nil
  show ?case by (simp add: sanitize_def)
next
  case (Cons c s)
  have "read_literal_body (sanitize (c # s) @ [CHR 0x22])
      = read_literal_body (sanitize_char c @ (sanitize s @ [CHR 0x22]))"
    by (simp add: sanitize_def)
  also have "\<dots> = emit (Some c) (read_literal_body (sanitize s @ [CHR 0x22]))"
    by (rule read_escaped_char)
  finally show ?case by (simp add: Cons.IH emit_def)
qed

text \<open>
  Claim C9. For every string \<open>s\<close>, reading the literal made of a double quote, \<open>sanitize s\<close>
  and a double quote by the rules of C++ string literals gives exactly \<open>s\<close>. Every string
  of bytes is representable: each byte has an escaped form.
\<close>

theorem sanitize_round_trip:
  "parse_cpp_string_literal ([CHR 0x22] @ sanitize s @ [CHR 0x22]) = Some s"
  by (simp add: parse_cpp_string_literal_def read_sanitized_body)

text \<open>
  The spec's fifth scenario: the text made of \<open>He said "hi"\<close> and a final backslash.
\<close>

theorem sanitize_round_trip_example:
  \<open>sanitize (''He said "hi"'' @ [CHR 0x5C]) = ''He said '' @ [CHR 0x5C] @ ''"hi'' @ [CHR 0x5C] @ ''"'' @ [CHR 0x5C, CHR 0x5C]
   \<and> parse_cpp_string_literal ([CHR 0x22] @ sanitize (''He said "hi"'' @ [CHR 0x5C]) @ [CHR 0x22])
       = Some (''He said "hi"'' @ [CHR 0x5C])\<close>
  using sanitize_round_trip [of \<open>''He said "hi"'' @ [CHR 0x5C]\<close>]
  by (simp add: sanitize_def sanitize_char_def is_control_def)

end
